theory Spec2Isabelle
  imports Main
begin

section \<open>JavaScript values, truthiness and errors\<close>

text \<open>
  The values that reach the authentication core from JSON documents (ID-token claims, token
  responses). JSON numbers are kept at their integral values. An object is the list of its
  own properties, each name once.
\<close>

datatype jsval =
    JUndefined
  | JNull
  | JBool bool
  | JNum int
  | JStr string
  | JArr "jsval list"
  | JObj "(string \<times> jsval) list"

text \<open>ToBoolean: what \<open>if (v)\<close>, \<open>!v\<close> and \<open>v || w\<close> test.\<close>

fun truthy :: "jsval \<Rightarrow> bool" where
  "truthy JUndefined = False"
| "truthy JNull = False"
| "truthy (JBool b) = b"
| "truthy (JNum n) = (n \<noteq> 0)"
| "truthy (JStr s) = (s \<noteq> [])"
| "truthy (JArr xs) = True"
| "truthy (JObj kvs) = True"

text \<open>The operator \<open>a || b\<close>, which is what the source writes.\<close>

definition js_or :: "jsval \<Rightarrow> jsval \<Rightarrow> jsval" where
  "js_or a b = (if truthy a then a else b)"

text \<open>
  The operator \<open>a ?? b\<close>, which is what the specification writes for the display name:
  it falls back only on \<open>undefined\<close> and \<open>null\<close>.
\<close>

definition js_nullish :: "jsval \<Rightarrow> jsval \<Rightarrow> jsval" where
  "js_nullish a b = (if a = JUndefined \<or> a = JNull then b else a)"

datatype error =
    Error string
  | TypeError string
  | RangeError string
  | SyntaxError string

fun message :: "error \<Rightarrow> string" where
  "message (Error m) = m"
| "message (TypeError m) = m"
| "message (RangeError m) = m"
| "message (SyntaxError m) = m"

text \<open>
  The property read \<open>v.k\<close>: a TypeError on \<open>undefined\<close> and \<open>null\<close>, the property of an
  object, and \<open>undefined\<close> where there is none. It is only used with the names of claims,
  none of which is a built-in property of a primitive or of an array.
\<close>

definition quoted :: "string \<Rightarrow> string" where
  "quoted k = [CHR 0x27] @ k @ [CHR 0x27]"

fun getProp :: "jsval \<Rightarrow> string \<Rightarrow> error + jsval" where
  "getProp JUndefined k =
     Inl (TypeError (''Cannot read properties of undefined (reading '' @ quoted k @ '')''))"
| "getProp JNull k =
     Inl (TypeError (''Cannot read properties of null (reading '' @ quoted k @ '')''))"
| "getProp (JObj kvs) k = Inr (case map_of kvs k of None \<Rightarrow> JUndefined | Some v \<Rightarrow> v)"
| "getProp v k = Inr JUndefined"

text \<open>The decimal text of a number inside a template literal.\<close>

definition digit :: "nat \<Rightarrow> char" where
  "digit d = char_of (of_char (CHR ''0'') + d)"

fun show_nat :: "nat \<Rightarrow> string" where
  "show_nat n = (if n < 10 then [digit n] else show_nat (n div 10) @ [digit (n mod 10)])"

declare show_nat.simps [simp del]

section \<open>Configuration, network and process state\<close>

record config =
  oidcDiscoveryUrl :: string
  clientId :: string
  clientSecret :: string
  isProduction :: bool
  host :: string
  port :: nat

text \<open>
  The settled value of \<open>fetch\<close>: a rejection, or a response with its \<open>ok\<close> flag, status
  line, body text and what \<open>response.json()\<close> gives (a parse error, or the document at the
  shape its consumer reads).
\<close>

record 'a response =
  ok :: bool
  status :: nat
  statusText :: string
  bodyText :: string
  json :: "error + 'a"

datatype 'a fetch_result = Rejected error | Resolved "'a response"

text \<open>The discovery document, as the data model of the specification has it.\<close>

record endpoints =
  authorization_endpoint :: string
  token_endpoint :: string
  end_session_endpoint :: string
  jwks_uri :: string
  issuer :: string

text \<open>The token response read by the session strategy; \<open>expires_in\<close> may be absent.\<close>

record token_response =
  access_token :: jsval
  refresh_token :: jsval
  expires_in :: "int option"

datatype http_call = GET string | POST string jsval

text \<open>
  What a call finds outside the process: the configuration, and how the network answers a
  GET of the discovery URL and a POST of a refresh token to the token endpoint.
\<close>

record env =
  cfg :: config
  fetchDiscovery :: "string \<Rightarrow> endpoints fetch_result"
  fetchToken :: "string \<Rightarrow> jsval \<Rightarrow> token_response fetch_result"

text \<open>
  The state of the process: the module variable \<open>cachedOidcEndpoints\<close> (\<open>null\<close> is
  \<open>None\<close>; an endpoint set is an object, hence truthy, so \<open>if (cachedOidcEndpoints)\<close>
  tests for \<open>Some\<close>), and two logs kept for the statements about calls: every network
  request made and the argument of every call of \<open>refreshAccessToken\<close>.
\<close>

record process =
  cachedOidcEndpoints :: "endpoints option"
  network :: "http_call list"
  refreshCalls :: "jsval list"

section \<open>OIDC discovery cache\<close>

text \<open>The \<open>catch\<close> of \<open>getOidcEndpoints\<close> wraps whatever was thrown inside the \<open>try\<close>.\<close>

definition discoveryCatch :: "error \<Rightarrow> error" where
  "discoveryCatch err = Error (''Failed to fetch OIDC configuration: '' @ message err)"

definition getOidcEndpoints :: "env \<Rightarrow> process \<Rightarrow> (error + endpoints) \<times> process" where
  "getOidcEndpoints w p =
     (case cachedOidcEndpoints p of
        Some cached \<Rightarrow> (Inr cached, p)
      | None \<Rightarrow>
          (let discoveryUrl = oidcDiscoveryUrl (cfg w);
               p1 = p\<lparr>network := network p @ [GET discoveryUrl]\<rparr>
           in case fetchDiscovery w discoveryUrl of
                Rejected err \<Rightarrow> (Inl (discoveryCatch err), p1)
              | Resolved r \<Rightarrow>
                  if \<not> ok r then
                    (Inl (discoveryCatch (Error (''OIDC discovery failed: ''
                        @ show_nat (status r) @ '' '' @ statusText r))), p1)
                  else
                    (case json r of
                       Inl err \<Rightarrow> (Inl (discoveryCatch err), p1)
                     | Inr eps \<Rightarrow> (Inr eps, p1\<lparr>cachedOidcEndpoints := Some eps\<rparr>))))"

text \<open>A run of calls, each against its own state of the outside world.\<close>

fun getOidcEndpointsRun :: "env list \<Rightarrow> process \<Rightarrow> (error + endpoints) list \<times> process" where
  "getOidcEndpointsRun [] p = ([], p)"
| "getOidcEndpointsRun (w # ws) p =
     (case getOidcEndpoints w p of
        (r, p1) \<Rightarrow> (case getOidcEndpointsRun ws p1 of (rs, p2) \<Rightarrow> (r # rs, p2)))"

section \<open>Token refresh client\<close>

text \<open>
  \<open>refreshAccessToken\<close>: no refresh token is an error before any request; the token
  endpoint comes from the discovery cache; one POST, whose form body is fixed by the
  refresh token and the configured client, so the answer is a function of the endpoint
  and the refresh token. Every call is entered in \<open>refreshCalls\<close>.
\<close>

definition refreshAccessToken ::
  "env \<Rightarrow> jsval \<Rightarrow> process \<Rightarrow> (error + token_response) \<times> process" where
  "refreshAccessToken w rt p0 =
     (let p = p0\<lparr>refreshCalls := refreshCalls p0 @ [rt]\<rparr>
      in if \<not> truthy rt then (Inl (Error ''No refresh token provided''), p)
         else
           (case getOidcEndpoints w p of
              (Inl err, p1) \<Rightarrow> (Inl err, p1)
            | (Inr oidcEndpoints, p1) \<Rightarrow>
                (let p2 = p1\<lparr>network := network p1 @ [POST (token_endpoint oidcEndpoints) rt]\<rparr>
                 in case fetchToken w (token_endpoint oidcEndpoints) rt of
                      Rejected err \<Rightarrow> (Inl err, p2)
                    | Resolved r \<Rightarrow>
                        if \<not> ok r then
                          (Inl (Error (''Token refresh failed: '' @ show_nat (status r) @ '' ''
                              @ statusText r @ '' - '' @ bodyText r)), p2)
                        else
                          (case json r of
                             Inl err \<Rightarrow> (Inl err, p2)
                           | Inr newTokens \<Rightarrow> (Inr newTokens, p2)))))"

section \<open>Dates\<close>

text \<open>
  An instant is its number of milliseconds since the epoch, and a Date is a time value or
  the Invalid Date (\<open>None\<close>): \<open>new Date(t)\<close> keeps \<open>t\<close> only within 8.64e15 ms of the
  epoch either way. The field \<open>expiresAt\<close> of a session is always written by
  \<open>toISOString\<close>, so it is kept as the instant its text denotes, and \<open>parseISO\<close> reads
  that instant back as a Date. \<open>new Date(t).toISOString()\<close> throws a RangeError on the
  Invalid Date, which is also what arithmetic on an absent number gives.
\<close>

definition maxTime :: int where
  "maxTime = 8640000000000000"

definition newDate :: "int \<Rightarrow> int option" where
  "newDate ms = (if - maxTime \<le> ms \<and> ms \<le> maxTime then Some ms else None)"

definition toISOString :: "int option \<Rightarrow> error + int" where
  "toISOString t =
     (case t of
        None \<Rightarrow> Inl (RangeError ''Invalid time value'')
      | Some ms \<Rightarrow>
          (case newDate ms of
             None \<Rightarrow> Inl (RangeError ''Invalid time value'')
           | Some v \<Rightarrow> Inr v))"

text \<open>\<open>Date.now() + seconds * 1000\<close>, NaN when the number of seconds is absent.\<close>

definition expiryTime :: "int \<Rightarrow> int option \<Rightarrow> int option" where
  "expiryTime now seconds = map_option (\<lambda>n. now + n * 1000) seconds"

definition parseISO :: "int \<Rightarrow> int option" where
  "parseISO t = newDate t"

text \<open>
  \<open>subMinutes\<close> of date-fns builds a new Date from the time value less the minutes: out
  of the range of dates it is the Invalid Date, and stays so.
\<close>

definition subMinutes :: "int option \<Rightarrow> int \<Rightarrow> int option" where
  "subMinutes d amount =
     (case d of None \<Rightarrow> None | Some t \<Rightarrow> newDate (t - amount * 60000))"

text \<open>
  \<open>isPast\<close> of date-fns compares strictly with the clock; the Invalid Date is NaN and
  compares false.
\<close>

definition isPast :: "int \<Rightarrow> int option \<Rightarrow> bool" where
  "isPast now d = (case d of None \<Rightarrow> False | Some t \<Rightarrow> t < now)"

section \<open>Session record and session store\<close>

record session =
  contactId :: jsval
  email :: jsval
  displayName :: jsval
  accessToken :: jsval
  refreshToken :: jsval
  expiresAt :: int
  relationships :: jsval
  roles :: jsval
  aal :: jsval
  loa :: jsval

text \<open>
  The yar session of a request: the values stored under keys, and the flash messages of
  each type. \<open>flash(type, message)\<close> appends the message (a request path, never empty);
  \<open>flash(type)\<close> returns the messages of the type and removes them.
\<close>

record yar =
  store :: "string \<rightharpoonup> session"
  flashes :: "string \<rightharpoonup> string list"

definition yar_get :: "yar \<Rightarrow> string \<Rightarrow> session option" where
  "yar_get y k = store y k"

definition yar_set :: "yar \<Rightarrow> string \<Rightarrow> session \<Rightarrow> yar" where
  "yar_set y k v = y\<lparr>store := (store y)(k \<mapsto> v)\<rparr>"

definition yar_clear :: "yar \<Rightarrow> string \<Rightarrow> yar" where
  "yar_clear y k = y\<lparr>store := (store y)(k := None)\<rparr>"

definition flashed :: "yar \<Rightarrow> string \<Rightarrow> string list" where
  "flashed y type = (case flashes y type of None \<Rightarrow> [] | Some messages \<Rightarrow> messages)"

definition yar_flash :: "yar \<Rightarrow> string \<Rightarrow> string \<Rightarrow> yar" where
  "yar_flash y type msg = y\<lparr>flashes := (flashes y)(type \<mapsto> flashed y type @ [msg])\<rparr>"

definition yar_flash_read :: "yar \<Rightarrow> string \<Rightarrow> string list \<times> yar" where
  "yar_flash_read y type = (flashed y type, y\<lparr>flashes := (flashes y)(type := None)\<rparr>)"

text \<open>
  Modelled from the spec: \<open>setSessionValue\<close> and \<open>clearSessionValue\<close> of
  session-helpers.js, the Session Store Accessor that writes and clears the session record
  of a request; with the key \<open>auth\<close> the controller's tests see them call \<open>yar.set\<close> and
  \<open>yar.clear\<close> with that key.
\<close>

definition setSessionValue :: "yar \<Rightarrow> string \<Rightarrow> session \<Rightarrow> yar" where
  "setSessionValue y k v = yar_set y k v"

definition clearSessionValue :: "yar \<Rightarrow> string \<Rightarrow> yar" where
  "clearSessionValue y k = yar_clear y k"

section \<open>Session authentication strategy\<close>

record request =
  path :: string
  authMode :: string

text \<open>\<open>{ credentials: {} }\<close> is \<open>Anonymous\<close>; \<open>Takeover url\<close> is \<open>h.redirect(url).takeover()\<close>.\<close>

datatype credentials = Anonymous | Session session

datatype outcome = Authenticated credentials | Takeover string

text \<open>The \<open>catch\<close> block of the refresh attempt.\<close>

definition refreshCatch :: "request \<Rightarrow> yar \<Rightarrow> outcome \<times> yar" where
  "refreshCatch req y =
     (let y1 = yar_clear y ''auth''
      in if authMode req = ''try'' \<or> authMode req = ''optional'' then
           (Authenticated Anonymous, y1)
         else (Takeover ''/auth/login'', yar_flash y1 ''redirect'' (path req)))"

text \<open>
  \<open>authenticate\<close> of the scheme \<open>yar-session\<close>. The clock is read twice: \<open>now\<close> by
  \<open>isPast\<close>, \<open>now2\<close> after the refresh has answered.
\<close>

definition authenticate ::
  "env \<Rightarrow> int \<Rightarrow> int \<Rightarrow> request \<Rightarrow> yar \<Rightarrow> process \<Rightarrow> outcome \<times> yar \<times> process" where
  "authenticate w now now2 req y p =
     (case yar_get y ''auth'' of
        None \<Rightarrow>
          if authMode req = ''try'' \<or> authMode req = ''optional'' then
            (Authenticated Anonymous, y, p)
          else (Takeover ''/auth/login'', yar_flash y ''redirect'' (path req), p)
      | Some sessionData \<Rightarrow>
          (let tokenHasExpired = isPast now (subMinutes (parseISO (expiresAt sessionData)) 1)
           in if tokenHasExpired \<and> truthy (refreshToken sessionData) then
                (case refreshAccessToken w (refreshToken sessionData) p of
                   (Inl err, p1) \<Rightarrow> (case refreshCatch req y of (out, y1) \<Rightarrow> (out, y1, p1))
                 | (Inr newTokens, p1) \<Rightarrow>
                     (case toISOString (expiryTime now2 (expires_in newTokens)) of
                        Inl err \<Rightarrow> (case refreshCatch req y of (out, y1) \<Rightarrow> (out, y1, p1))
                      | Inr stamp \<Rightarrow>
                          (let updatedSession = sessionData
                                 \<lparr>accessToken := access_token newTokens,
                                  refreshToken := refresh_token newTokens,
                                  expiresAt := stamp\<rparr>
                           in (Authenticated (Session updatedSession),
                               yar_set y ''auth'' updatedSession, p1))))
              else (Authenticated (Session sessionData), y, p)))"

section \<open>Authentication controller\<close>

text \<open>What Bell leaves in \<open>request.auth.credentials\<close>; \<open>expiresIn\<close> may be absent.\<close>

record bell_credentials =
  token :: string
  bellRefreshToken :: jsval
  expiresIn :: "int option"

datatype reply = Redirect string

definition bindE :: "error + 'a \<Rightarrow> ('a \<Rightarrow> error + 'b) \<Rightarrow> error + 'b" where
  "bindE m f = (case m of Inl err \<Rightarrow> Inl err | Inr v \<Rightarrow> f v)"

text \<open>
  The \<open>try\<close> block of the callback up to the session object: \<open>decode\<close> stands for
  \<open>jwt.token.decode(idToken).decoded.payload\<close>, which throws on a malformed token. The
  claims are read in the order of the source, the two reads of the log line first.
\<close>

definition buildSessionData ::
  "(string \<Rightarrow> error + jsval) \<Rightarrow> int \<Rightarrow> bell_credentials \<Rightarrow> error + session" where
  "buildSessionData decode now creds =
     bindE (decode (token creds)) (\<lambda>claims.
     bindE (getProp claims ''contactId'') (\<lambda>claimContactId.
     bindE (getProp claims ''email'') (\<lambda>claimEmail.
     bindE (getProp claims ''given_name'') (\<lambda>claimGivenName.
     bindE (toISOString (expiryTime now (expiresIn creds))) (\<lambda>stamp.
     bindE (getProp claims ''relationships'') (\<lambda>claimRelationships.
     bindE (getProp claims ''roles'') (\<lambda>claimRoles.
     bindE (getProp claims ''aal'') (\<lambda>claimAal.
     bindE (getProp claims ''loa'') (\<lambda>claimLoa.
       Inr \<lparr>contactId = claimContactId,
            email = claimEmail,
            displayName = js_or claimGivenName claimEmail,
            accessToken = JStr (token creds),
            refreshToken = bellRefreshToken creds,
            expiresAt = stamp,
            relationships = js_or claimRelationships (JArr []),
            roles = js_or claimRoles (JArr []),
            aal = claimAal,
            loa = claimLoa\<rparr>)))))))))"

text \<open>
  The callback handler: an error of the \<open>try\<close> block is logged and thrown again; otherwise
  the session is stored and the reply redirects to the first pending path, or to \<open>/\<close>.
\<close>

definition callback ::
  "(string \<Rightarrow> error + jsval) \<Rightarrow> int \<Rightarrow> bell_credentials \<Rightarrow> yar \<Rightarrow> (error + reply) \<times> yar" where
  "callback decode now creds y =
     (case buildSessionData decode now creds of
        Inl err \<Rightarrow> (Inl err, y)
      | Inr sessionData \<Rightarrow>
          (case yar_flash_read (setSessionValue y ''auth'' sessionData) ''redirect'' of
             (messages, y2) \<Rightarrow>
               (Inr (Redirect (case messages of [] \<Rightarrow> ''/'' | m # ms \<Rightarrow> m)), y2)))"

text \<open>
  \<open>encodeURIComponent\<close> on the UTF-8 bytes of a string: letters, digits and
  \<open>- _ . ! ~ * ' ( )\<close> stay, every other byte becomes \<open>%XX\<close> in upper-case hexadecimal.
\<close>

definition uriUnreserved :: "char \<Rightarrow> bool" where
  "uriUnreserved c \<longleftrightarrow>
     c \<in> set (''ABCDEFGHIJKLMNOPQRSTUVWXYZabcdefghijklmnopqrstuvwxyz0123456789-_.!~*()''
              @ [CHR 0x27])"

definition hexDigit :: "nat \<Rightarrow> char" where
  "hexDigit d = (if d < 10 then digit d else char_of (of_char (CHR ''A'') + (d - 10)))"

definition percentEncode :: "char \<Rightarrow> string" where
  "percentEncode c = [CHR ''%'', hexDigit (of_char c div 16), hexDigit (of_char c mod 16)]"

definition encodeURIComponent :: "string \<Rightarrow> string" where
  "encodeURIComponent s = concat (map (\<lambda>c. if uriUnreserved c then [c] else percentEncode c) s)"

text \<open>The logout handler.\<close>

definition logout :: "env \<Rightarrow> yar \<Rightarrow> process \<Rightarrow> (error + reply) \<times> yar \<times> process" where
  "logout w y p =
     (let y1 = clearSessionValue y ''auth''
      in case getOidcEndpoints w p of
           (Inl err, p1) \<Rightarrow> (Inl err, y1, p1)
         | (Inr oidcEndpoints, p1) \<Rightarrow>
             (let protocol = (if isProduction (cfg w) then ''https'' else ''http'');
                  postLogoutUri =
                    (if port (cfg w) = 80 \<or> port (cfg w) = 443
                     then protocol @ ''://'' @ host (cfg w)
                     else protocol @ ''://'' @ host (cfg w) @ '':'' @ show_nat (port (cfg w)));
                  logoutUrl = end_session_endpoint oidcEndpoints
                    @ ''?post_logout_redirect_uri='' @ encodeURIComponent postLogoutUri
              in (Inr (Redirect logoutUrl), y1, p1)))"

text \<open>
  The post-logout URI in the words of the specification: scheme, host, and a port segment
  that is there unless the port is 80 or 443.
\<close>

definition portSegment :: "nat \<Rightarrow> string" where
  "portSegment n = (if n = 80 \<or> n = 443 then [] else '':'' @ show_nat n)"

definition postLogoutRedirectUri :: "config \<Rightarrow> string" where
  "postLogoutRedirectUri c =
     (if isProduction c then ''https'' else ''http'') @ ''://'' @ host c @ portSegment (port c)"

section \<open>Server start-up and the requests it serves\<close>

text \<open>
  \<open>setupDefraIdStrategy\<close> awaits the discovery document before it registers the Bell
  strategy; what it gives here is the callback URL it builds. A discovery error rejects it.
\<close>

definition setupDefraIdStrategy :: "env \<Rightarrow> process \<Rightarrow> (error + string) \<times> process" where
  "setupDefraIdStrategy w p =
     (case getOidcEndpoints w p of
        (Inl err, p1) \<Rightarrow> (Inl err, p1)
      | (Inr oidcEndpoints, p1) \<Rightarrow>
          (let protocol = (if isProduction (cfg w) then ''https'' else ''http'');
               hostName = (if host (cfg w) = ''0.0.0.0'' then ''localhost'' else host (cfg w));
               portSuffix = (if port (cfg w) = 80 \<or> port (cfg w) = 443 then []
                             else '':'' @ show_nat (port (cfg w)));
               callbackUrl = protocol @ ''://'' @ hostName @ portSuffix @ ''/auth/callback''
           in (Inr callbackUrl, p1)))"

text \<open>
  \<open>createServer\<close>, as far as authentication goes: with the three settings of DEFRA ID
  present (non-empty strings) it sets the strategies up and the router then registers the
  routes under \<open>/auth\<close> and the dashboard; without them there are no such routes. A
  rejected set-up rejects \<open>createServer\<close>: no server.
\<close>

record server =
  authRoutes :: bool

definition defraIdConfigured :: "config \<Rightarrow> bool" where
  "defraIdConfigured c \<longleftrightarrow> oidcDiscoveryUrl c \<noteq> [] \<and> clientId c \<noteq> [] \<and> clientSecret c \<noteq> []"

definition createServer :: "env \<Rightarrow> process \<Rightarrow> (error + server) \<times> process" where
  "createServer w p =
     (if defraIdConfigured (cfg w) then
        (case setupDefraIdStrategy w p of
           (Inl err, p1) \<Rightarrow> (Inl err, p1)
         | (Inr callbackUrl, p1) \<Rightarrow> (Inr \<lparr>authRoutes = True\<rparr>, p1))
      else (Inr \<lparr>authRoutes = False\<rparr>, p))"

text \<open>
  What a started server does to the process state: the session strategy on a request, and
  the logout handler. Each request meets its own state of the outside world.
\<close>

datatype handled =
    Authenticate env int int request yar
  | Logout env yar

fun serve :: "handled list \<Rightarrow> process \<Rightarrow> process" where
  "serve [] p = p"
| "serve (Authenticate w now now2 req y # rest) p =
     serve rest (snd (snd (authenticate w now now2 req y p)))"
| "serve (Logout w y # rest) p = serve rest (snd (snd (logout w y p)))"

section \<open>Sample data\<close>

definition sampleEndpoints :: endpoints where
  "sampleEndpoints =
     \<lparr>authorization_endpoint = ''https://example.com/authorize'',
      token_endpoint = ''https://example.com/token'',
      end_session_endpoint = ''https://example.com/logout'',
      jwks_uri = ''https://example.com/jwks'',
      issuer = ''https://example.com''\<rparr>"

definition sampleConfig :: config where
  "sampleConfig =
     \<lparr>oidcDiscoveryUrl = ''https://example.com/.well-known/openid-configuration'',
      clientId = ''trade-demo'', clientSecret = ''secret'',
      isProduction = False, host = ''localhost'', port = 3000\<rparr>"

definition newTokens :: token_response where
  "newTokens =
     \<lparr>access_token = JStr ''new-token'', refresh_token = JStr ''new-refresh'',
      expires_in = Some 3600\<rparr>"

definition okResponse :: "'a \<Rightarrow> 'a response" where
  "okResponse v = \<lparr>ok = True, status = 200, statusText = ''OK'', bodyText = [], json = Inr v\<rparr>"

definition notFound :: "'a response" where
  "notFound =
     \<lparr>ok = False, status = 404, statusText = ''Not Found'', bodyText = ''not found'',
      json = Inl (SyntaxError ''Unexpected token'')\<rparr>"

text \<open>A provider that answers, one that is unreachable, and one that refuses the refresh.\<close>

definition envUp :: env where
  "envUp = \<lparr>cfg = sampleConfig,
            fetchDiscovery = (\<lambda>url. Resolved (okResponse sampleEndpoints)),
            fetchToken = (\<lambda>url rt. Resolved (okResponse newTokens))\<rparr>"

definition envDown :: env where
  "envDown = \<lparr>cfg = sampleConfig,
              fetchDiscovery = (\<lambda>url. Rejected (TypeError ''fetch failed'')),
              fetchToken = (\<lambda>url rt. Rejected (TypeError ''fetch failed''))\<rparr>"

definition envRefused :: env where
  "envRefused = \<lparr>cfg = sampleConfig,
                 fetchDiscovery = (\<lambda>url. Resolved (okResponse sampleEndpoints)),
                 fetchToken = (\<lambda>url rt. Resolved notFound)\<rparr>"

definition freshProcess :: process where
  "freshProcess = \<lparr>cachedOidcEndpoints = None, network = [], refreshCalls = []\<rparr>"

definition startedProcess :: process where
  "startedProcess =
     \<lparr>cachedOidcEndpoints = Some sampleEndpoints,
      network = [GET ''https://example.com/.well-known/openid-configuration''],
      refreshCalls = []\<rparr>"

definition sampleSession :: "jsval \<Rightarrow> int \<Rightarrow> session" where
  "sampleSession rt expiry =
     \<lparr>contactId = JStr ''test-contact'', email = JStr ''test@example.com'',
      displayName = JStr ''Test User'', accessToken = JStr ''old-token'',
      refreshToken = rt, expiresAt = expiry, relationships = JArr [],
      roles = JArr [JStr ''user''], aal = JStr ''aal2'', loa = JStr ''2''\<rparr>"

definition emptyYar :: yar where
  "emptyYar = \<lparr>store = Map.empty, flashes = Map.empty\<rparr>"

definition yarWith :: "session \<Rightarrow> yar" where
  "yarWith s = \<lparr>store = [''auth'' \<mapsto> s], flashes = Map.empty\<rparr>"

definition dashboardRequest :: "string \<Rightarrow> request" where
  "dashboardRequest mode = \<lparr>path = ''/dashboard'', authMode = mode\<rparr>"

definition sampleCredentials :: bell_credentials where
  "sampleCredentials =
     \<lparr>token = ''test-id-token'', bellRefreshToken = JStr ''test-refresh-token'',
      expiresIn = Some 3600\<rparr>"

definition decodeTo :: "jsval \<Rightarrow> string \<Rightarrow> error + jsval" where
  "decodeTo payload idToken = Inr payload"


definition sampleClaims :: "jsval \<Rightarrow> jsval" where
  "sampleClaims givenName =
     JObj [(''contactId'', JStr ''test-contact-id''), (''email'', JStr ''test@example.com''),
           (''given_name'', givenName), (''relationships'', JArr []),
           (''roles'', JArr [JStr ''user'']), (''aal'', JStr ''aal2''), (''loa'', JStr ''2'')]"

definition refreshedProcess :: process where
  "refreshedProcess =
     \<lparr>cachedOidcEndpoints = Some sampleEndpoints,
      network = [GET ''https://example.com/.well-known/openid-configuration'',
                 POST ''https://example.com/token'' (JStr ''old-refresh'')],
      refreshCalls = [JStr ''old-refresh'']\<rparr>"

text \<open>A provider whose token response carries a lifetime beyond the range of dates.\<close>

definition envFarFuture :: env where
  "envFarFuture = \<lparr>cfg = sampleConfig,
                   fetchDiscovery = (\<lambda>url. Resolved (okResponse sampleEndpoints)),
                   fetchToken = (\<lambda>url rt. Resolved (okResponse
                     (newTokens\<lparr>expires_in := Some 8640000000000\<rparr>)))\<rparr>"

section \<open>Facts about the discovery cache\<close>

lemma getOidcEndpoints_cached:
  "cachedOidcEndpoints p = Some e \<Longrightarrow> getOidcEndpoints w p = (Inr e, p)"
  by (simp add: getOidcEndpoints_def)

lemma getOidcEndpoints_success_caches:
  "getOidcEndpoints w p = (Inr e, p') \<Longrightarrow> cachedOidcEndpoints p' = Some e"
  by (auto simp: getOidcEndpoints_def Let_def
      split: option.splits fetch_result.splits if_splits sum.splits)



lemma getOidcEndpoints_refreshCalls:
  "refreshCalls (snd (getOidcEndpoints w p)) = refreshCalls p"
  by (auto simp: getOidcEndpoints_def Let_def
      split: option.splits fetch_result.splits if_splits sum.splits)

lemma getOidcEndpointsRun_cached:
  "cachedOidcEndpoints p = Some e \<Longrightarrow>
     getOidcEndpointsRun ws p = (replicate (length ws) (Inr e), p)"
  by (induction ws) (simp_all add: getOidcEndpoints_cached)

lemma getOidcEndpoints_envUp:
  "getOidcEndpoints envUp freshProcess =
     (Inr sampleEndpoints,
      \<lparr>cachedOidcEndpoints = Some sampleEndpoints,
       network = [GET ''https://example.com/.well-known/openid-configuration''],
       refreshCalls = []\<rparr>)"
  by (simp add: getOidcEndpoints_def envUp_def freshProcess_def okResponse_def sampleConfig_def)

text \<open>
  C9. Once a call of \<open>getOidcEndpoints\<close> has succeeded with an endpoint set, every later
  call returns that same endpoint set and leaves the process state, and so the log of
  network requests, as it was, whatever the network would answer by then.
\<close>

theorem discovery_cached_after_first_success:
  assumes "getOidcEndpoints w p = (Inr e, p')"
  shows "getOidcEndpointsRun ws p' = (replicate (length ws) (Inr e), p')"
  using assms by (simp add: getOidcEndpointsRun_cached getOidcEndpoints_success_caches)

theorem discovery_cached_after_first_success_witness:
  "getOidcEndpoints envUp freshProcess = (Inr sampleEndpoints, startedProcess) \<and>
   getOidcEndpointsRun [envDown, envUp] startedProcess =
     ([Inr sampleEndpoints, Inr sampleEndpoints], startedProcess)"
proof -
  have first: "getOidcEndpoints envUp freshProcess = (Inr sampleEndpoints, startedProcess)"
    by (simp add: getOidcEndpoints_envUp startedProcess_def)
  show ?thesis
    using first discovery_cached_after_first_success [OF first, of "[envDown, envUp]"]
    by simp
qed



section \<open>Facts about the session strategy\<close>

lemma refreshAccessToken_refreshCalls:
  "refreshCalls (snd (refreshAccessToken w rt p)) = refreshCalls p @ [rt]"
proof -
  let ?p = "p\<lparr>refreshCalls := refreshCalls p @ [rt]\<rparr>"
  have "refreshCalls (snd (getOidcEndpoints w ?p)) = refreshCalls p @ [rt]"
    by (simp add: getOidcEndpoints_refreshCalls)
  then show ?thesis
    by (auto simp: refreshAccessToken_def Let_def
        split: prod.splits sum.splits fetch_result.splits)
qed

lemma authenticate_no_session:
  "yar_get y ''auth'' = None \<Longrightarrow>
     authenticate w now now2 req y p =
       (if authMode req = ''try'' \<or> authMode req = ''optional''
        then (Authenticated Anonymous, y, p)
        else (Takeover ''/auth/login'', yar_flash y ''redirect'' (path req), p))"
  by (simp add: authenticate_def)

lemma tokenHasExpired_iff:
  "isPast now (subMinutes (parseISO t) 1) \<longleftrightarrow>
     - maxTime + 60000 \<le> t \<and> t \<le> maxTime \<and> t < now + 60000"
  by (auto simp: isPast_def subMinutes_def parseISO_def newDate_def maxTime_def)

lemma authenticate_no_refresh:
  "yar_get y ''auth'' = Some s \<Longrightarrow>
   \<not> (- maxTime + 60000 \<le> expiresAt s \<and> expiresAt s \<le> maxTime \<and>
      expiresAt s < now + 60000 \<and> truthy (refreshToken s)) \<Longrightarrow>
     authenticate w now now2 req y p = (Authenticated (Session s), y, p)"
  by (auto simp: authenticate_def Let_def tokenHasExpired_iff)

lemma authenticate_refresh:
  "yar_get y ''auth'' = Some s \<Longrightarrow> - maxTime + 60000 \<le> expiresAt s \<Longrightarrow>
   expiresAt s \<le> maxTime \<Longrightarrow> expiresAt s < now + 60000 \<Longrightarrow>
   truthy (refreshToken s) \<Longrightarrow>
     authenticate w now now2 req y p =
       (case refreshAccessToken w (refreshToken s) p of
          (Inl err, p1) \<Rightarrow> (case refreshCatch req y of (out, y1) \<Rightarrow> (out, y1, p1))
        | (Inr t, p1) \<Rightarrow>
            (case toISOString (expiryTime now2 (expires_in t)) of
               Inl err \<Rightarrow> (case refreshCatch req y of (out, y1) \<Rightarrow> (out, y1, p1))
             | Inr stamp \<Rightarrow>
                 (Authenticated (Session (s\<lparr>accessToken := access_token t,
                    refreshToken := refresh_token t, expiresAt := stamp\<rparr>)),
                  yar_set y ''auth'' (s\<lparr>accessToken := access_token t,
                    refreshToken := refresh_token t, expiresAt := stamp\<rparr>), p1)))"
  by (auto simp: authenticate_def Let_def tokenHasExpired_iff
      split: prod.splits sum.splits)

lemma refreshAccessToken_envUp:
  "refreshAccessToken envUp (JStr ''old-refresh'') startedProcess =
     (Inr newTokens, refreshedProcess)"
  by (simp add: refreshAccessToken_def getOidcEndpoints_def startedProcess_def envUp_def
      okResponse_def sampleEndpoints_def refreshedProcess_def Let_def)

lemma refreshAccessToken_envFarFuture:
  "refreshAccessToken envFarFuture (JStr ''old-refresh'') startedProcess =
     (Inr (newTokens\<lparr>expires_in := Some 8640000000000\<rparr>), refreshedProcess)"
  by (simp add: refreshAccessToken_def getOidcEndpoints_def startedProcess_def envFarFuture_def
      okResponse_def sampleEndpoints_def refreshedProcess_def Let_def)

lemma show_nat_404: "show_nat 404 = ''404''"
  by code_simp

lemma refreshAccessToken_envRefused:
  "refreshAccessToken envRefused (JStr ''old-refresh'') startedProcess =
     (Inl (Error ''Token refresh failed: 404 Not Found - not found''), refreshedProcess)"
  by (simp add: refreshAccessToken_def getOidcEndpoints_def startedProcess_def envRefused_def
      notFound_def sampleEndpoints_def refreshedProcess_def Let_def show_nat_404)

text \<open>
  C4. With a session whose \<open>expiresAt\<close> is more than one minute after the clock, the
  strategy authenticates with the stored record and leaves the session and the process
  state untouched: no call of the refresh client, no network request.
\<close>

theorem valid_session_authenticates:
  assumes "yar_get y ''auth'' = Some s" and "now + 60000 < expiresAt s"
  shows "authenticate w now now2 req y p = (Authenticated (Session s), y, p) \<and>
         refreshCalls (snd (snd (authenticate w now now2 req y p))) = refreshCalls p \<and>
         network (snd (snd (authenticate w now now2 req y p))) = network p"
proof -
  from assms(2) have "\<not> (- maxTime + 60000 \<le> expiresAt s \<and> expiresAt s \<le> maxTime \<and>
      expiresAt s < now + 60000 \<and> truthy (refreshToken s))"
    by simp
  with assms(1) have "authenticate w now now2 req y p = (Authenticated (Session s), y, p)"
    by (rule authenticate_no_refresh)
  then show ?thesis by simp
qed

theorem valid_session_authenticates_witness:
  "yar_get (yarWith (sampleSession (JStr ''old-refresh'') 3600000)) ''auth''
     = Some (sampleSession (JStr ''old-refresh'') 3600000) \<and>
   (0::int) + 60000 < expiresAt (sampleSession (JStr ''old-refresh'') 3600000) \<and>
   authenticate envUp 0 5 (dashboardRequest ''required'')
       (yarWith (sampleSession (JStr ''old-refresh'') 3600000)) startedProcess
     = (Authenticated (Session (sampleSession (JStr ''old-refresh'') 3600000)),
        yarWith (sampleSession (JStr ''old-refresh'') 3600000), startedProcess)"
proof -
  let ?s = "sampleSession (JStr ''old-refresh'') 3600000"
  have stored: "yar_get (yarWith ?s) ''auth'' = Some ?s"
    by (simp add: yar_get_def yarWith_def)
  have valid: "(0::int) + 60000 < expiresAt ?s"
    by (simp add: sampleSession_def)
  show ?thesis
    using stored valid
      valid_session_authenticates [OF stored valid, of envUp 5 "dashboardRequest ''required''"
        startedProcess]
    by simp
qed

text \<open>
  C5. With no record under \<open>auth\<close>: in mode \<open>required\<close> the request path is added to the
  flash messages \<open>redirect\<close> and the outcome is the takeover redirect to \<open>/auth/login\<close>; in
  mode \<open>try\<close> or \<open>optional\<close> the request proceeds with empty credentials and the session is
  untouched. Neither touches the process state.
\<close>

theorem no_session_behaviour:
  assumes "yar_get y ''auth'' = None"
  shows "(authMode req = ''required'' \<longrightarrow>
            fst (authenticate w now now2 req y p) = Takeover ''/auth/login'' \<and>
            flashed (fst (snd (authenticate w now now2 req y p))) ''redirect''
              = flashed y ''redirect'' @ [path req] \<and>
            store (fst (snd (authenticate w now now2 req y p))) = store y \<and>
            snd (snd (authenticate w now now2 req y p)) = p) \<and>
         (authMode req = ''try'' \<or> authMode req = ''optional'' \<longrightarrow>
            authenticate w now now2 req y p = (Authenticated Anonymous, y, p))"
  using assms by (simp add: authenticate_no_session yar_flash_def flashed_def)

theorem no_session_behaviour_witness:
  "yar_get emptyYar ''auth'' = None \<and>
   authenticate envUp 0 5 (dashboardRequest ''required'') emptyYar startedProcess
     = (Takeover ''/auth/login'',
        \<lparr>store = Map.empty, flashes = [''redirect'' \<mapsto> [''/dashboard'']]\<rparr>, startedProcess) \<and>
   authenticate envUp 0 5 (dashboardRequest ''try'') emptyYar startedProcess
     = (Authenticated Anonymous, emptyYar, startedProcess)"
proof -
  have none: "yar_get emptyYar ''auth'' = None"
    by (simp add: yar_get_def emptyYar_def)
  have req: "authenticate envUp 0 5 (dashboardRequest ''required'') emptyYar startedProcess
     = (Takeover ''/auth/login'',
        \<lparr>store = Map.empty, flashes = [''redirect'' \<mapsto> [''/dashboard'']]\<rparr>, startedProcess)"
    using none
    by (simp add: authenticate_no_session dashboardRequest_def yar_flash_def flashed_def
        emptyYar_def)
  show ?thesis
    using none req
      no_session_behaviour [OF none, of "dashboardRequest ''try''" envUp 0 5 startedProcess]
    by (simp add: dashboardRequest_def)
qed

text \<open>
  C1. A session one second past its expiry and without a refresh token, on a route of mode
  \<open>required\<close>: the strategy authenticates with the stored record, and neither clears the
  session nor redirects to the login.
\<close>

theorem expired_session_without_refresh_token_is_authenticated:
  "authenticate envUp 1000 1005 (dashboardRequest ''required'')
       (yarWith (sampleSession JUndefined 0)) startedProcess
     = (Authenticated (Session (sampleSession JUndefined 0)),
        yarWith (sampleSession JUndefined 0), startedProcess)"
proof -
  have stored: "yar_get (yarWith (sampleSession JUndefined 0)) ''auth''
      = Some (sampleSession JUndefined 0)"
    by (simp add: yar_get_def yarWith_def)
  have "\<not> (- maxTime + 60000 \<le> expiresAt (sampleSession JUndefined 0) \<and>
      expiresAt (sampleSession JUndefined 0) \<le> maxTime \<and>
      expiresAt (sampleSession JUndefined 0) < 1000 + 60000 \<and>
      truthy (refreshToken (sampleSession JUndefined 0)))"
    by (simp add: sampleSession_def)
  with stored show ?thesis by (rule authenticate_no_refresh)
qed

text \<open>
  C2, as the code has it. With a session whose \<open>expiresAt\<close> is a date at least one minute
  above the lowest date and strictly before the clock plus one minute, and whose refresh
  token is truthy, the strategy calls the refresh client exactly once, with that token.
  When the call returns a token response whose \<open>expires_in\<close> is a whole number of seconds
  that gives a time value \<open>toISOString\<close> accepts, the strategy stores under \<open>auth\<close> a
  record that has the access token, the refresh token and the expiry
  (clock + \<open>expires_in\<close> seconds) of the response and every other field of the prior
  record, and authenticates with that record.
\<close>

theorem expired_session_is_refreshed:
  assumes "yar_get y ''auth'' = Some s"
    and "- maxTime + 60000 \<le> expiresAt s"
    and "expiresAt s \<le> maxTime"
    and "expiresAt s < now + 60000"
    and "truthy (refreshToken s)"
  shows "refreshCalls (snd (snd (authenticate w now now2 req y p)))
           = refreshCalls p @ [refreshToken s] \<and>
         (\<forall>t p1 n. refreshAccessToken w (refreshToken s) p = (Inr t, p1) \<and>
              expires_in t = Some n \<and>
              - maxTime \<le> now2 + n * 1000 \<and> now2 + n * 1000 \<le> maxTime \<longrightarrow>
            (\<exists>s' y'. authenticate w now now2 req y p = (Authenticated (Session s'), y', p1) \<and>
               yar_get y' ''auth'' = Some s' \<and> flashes y' = flashes y \<and>
               accessToken s' = access_token t \<and>
               refreshToken s' = refresh_token t \<and>
               expiresAt s' = now2 + n * 1000 \<and>
               contactId s' = contactId s \<and> email s' = email s \<and>
               displayName s' = displayName s \<and> relationships s' = relationships s \<and>
               roles s' = roles s \<and> aal s' = aal s \<and> loa s' = loa s))"
proof (intro conjI allI impI)
  have "refreshCalls (snd (refreshAccessToken w (refreshToken s) p))
      = refreshCalls p @ [refreshToken s]"
    by (rule refreshAccessToken_refreshCalls)
  then show "refreshCalls (snd (snd (authenticate w now now2 req y p)))
      = refreshCalls p @ [refreshToken s]"
    by (auto simp: authenticate_refresh [OF assms] split: prod.splits sum.splits)
next
  fix t p1 n
  assume ok: "refreshAccessToken w (refreshToken s) p = (Inr t, p1) \<and>
      expires_in t = Some n \<and> - maxTime \<le> now2 + n * 1000 \<and> now2 + n * 1000 \<le> maxTime"
  then have stamp: "toISOString (expiryTime now2 (expires_in t)) = Inr (now2 + n * 1000)"
    by (simp add: toISOString_def newDate_def expiryTime_def)
  let ?s = "s\<lparr>accessToken := access_token t, refreshToken := refresh_token t,
      expiresAt := now2 + n * 1000\<rparr>"
  have "authenticate w now now2 req y p
      = (Authenticated (Session ?s), yar_set y ''auth'' ?s, p1)"
    using ok stamp by (simp add: authenticate_refresh [OF assms])
  moreover have "yar_get (yar_set y ''auth'' ?s) ''auth'' = Some ?s"
    by (simp add: yar_get_def yar_set_def)
  moreover have "flashes (yar_set y ''auth'' ?s) = flashes y"
    by (simp add: yar_set_def)
  ultimately show "\<exists>s' y'. authenticate w now now2 req y p = (Authenticated (Session s'), y', p1) \<and>
      yar_get y' ''auth'' = Some s' \<and> flashes y' = flashes y \<and>
      accessToken s' = access_token t \<and> refreshToken s' = refresh_token t \<and>
      expiresAt s' = now2 + n * 1000 \<and>
      contactId s' = contactId s \<and> email s' = email s \<and>
      displayName s' = displayName s \<and> relationships s' = relationships s \<and>
      roles s' = roles s \<and> aal s' = aal s \<and> loa s' = loa s"
    by (intro exI [of _ ?s] exI [of _ "yar_set y ''auth'' ?s"]) simp
qed

theorem expired_session_is_refreshed_witness:
  "yar_get (yarWith (sampleSession (JStr ''old-refresh'') 0)) ''auth''
     = Some (sampleSession (JStr ''old-refresh'') 0) \<and>
   - maxTime + 60000 \<le> expiresAt (sampleSession (JStr ''old-refresh'') 0) \<and>
   expiresAt (sampleSession (JStr ''old-refresh'') 0) \<le> maxTime \<and>
   expiresAt (sampleSession (JStr ''old-refresh'') 0) < 1000 + 60000 \<and>
   truthy (refreshToken (sampleSession (JStr ''old-refresh'') 0)) \<and>
   refreshAccessToken envUp (JStr ''old-refresh'') startedProcess
     = (Inr newTokens, refreshedProcess) \<and>
   expires_in newTokens = Some 3600 \<and>
   - maxTime \<le> 1005 + 3600 * 1000 \<and> 1005 + 3600 * 1000 \<le> maxTime \<and>
   refreshCalls (snd (snd (authenticate envUp 1000 1005 (dashboardRequest ''required'')
       (yarWith (sampleSession (JStr ''old-refresh'') 0)) startedProcess)))
     = [JStr ''old-refresh''] \<and>
   fst (authenticate envUp 1000 1005 (dashboardRequest ''required'')
       (yarWith (sampleSession (JStr ''old-refresh'') 0)) startedProcess)
     = Authenticated (Session ((sampleSession (JStr ''new-refresh'') 3601005)
         \<lparr>accessToken := JStr ''new-token''\<rparr>))"
proof -
  let ?s = "sampleSession (JStr ''old-refresh'') 0"
  let ?run = "authenticate envUp 1000 1005 (dashboardRequest ''required'') (yarWith ?s)
      startedProcess"
  have stored: "yar_get (yarWith ?s) ''auth'' = Some ?s"
    by (simp add: yar_get_def yarWith_def)
  have lower: "- maxTime + 60000 \<le> expiresAt ?s"
    by (simp add: sampleSession_def maxTime_def)
  have upper: "expiresAt ?s \<le> maxTime"
    by (simp add: sampleSession_def maxTime_def)
  have expired: "expiresAt ?s < 1000 + 60000"
    by (simp add: sampleSession_def)
  have token: "truthy (refreshToken ?s)"
    by (simp add: sampleSession_def)
  have refreshed: "refreshAccessToken envUp (refreshToken ?s) startedProcess
      = (Inr newTokens, refreshedProcess)"
    by (simp add: sampleSession_def refreshAccessToken_envUp)
  have lifetime: "expires_in newTokens = Some 3600"
    by (simp add: newTokens_def)
  have range: "- maxTime \<le> 1005 + 3600 * 1000 \<and> 1005 + 3600 * 1000 \<le> maxTime"
    by (simp add: maxTime_def)
  note fact = expired_session_is_refreshed [OF stored lower upper expired token, of envUp 1005
      "dashboardRequest ''required''" startedProcess]
  from fact have calls: "refreshCalls (snd (snd ?run)) = [JStr ''old-refresh'']"
    by (simp add: startedProcess_def sampleSession_def)
  from fact refreshed lifetime range
  obtain s' y' where run: "?run = (Authenticated (Session s'), y', refreshedProcess)"
    and fields: "accessToken s' = access_token newTokens"
      "refreshToken s' = refresh_token newTokens" "expiresAt s' = 1005 + 3600 * 1000"
      "contactId s' = contactId ?s" "email s' = email ?s" "displayName s' = displayName ?s"
      "relationships s' = relationships ?s" "roles s' = roles ?s" "aal s' = aal ?s"
      "loa s' = loa ?s"
    by blast
  from fields have "s' = (sampleSession (JStr ''new-refresh'') 3601005)
      \<lparr>accessToken := JStr ''new-token''\<rparr>"
    by (intro session.equality) (simp_all add: sampleSession_def newTokens_def)
  with run have out: "fst ?run = Authenticated (Session ((sampleSession (JStr ''new-refresh'')
      3601005) \<lparr>accessToken := JStr ''new-token''\<rparr>))"
    by simp
  from range have range1: "- maxTime \<le> 1005 + 3600 * 1000"
    and range2: "1005 + 3600 * 1000 \<le> maxTime"
    by simp_all
  from stored lower upper expired token refreshAccessToken_envUp lifetime range1 range2 calls out
  show ?thesis
    by (intro conjI)
qed

text \<open>
  Where C2 as stated fails. At \<open>expiresAt\<close> exactly one minute after the clock the session
  has a refresh token, yet the strategy makes no call of the refresh client and
  authenticates with the stored record. The same happens at the lowest date, where taking
  a minute off gives the Invalid Date. And a refresh that succeeds with a lifetime beyond
  the range of dates ends in the \<open>catch\<close> block: the session is cleared and the reply is
  the redirect to the login.
\<close>

theorem expired_session_is_refreshed_counterexample:
  "expiresAt (sampleSession (JStr ''old-refresh'') 60000) \<le> 0 + 60000 \<and>
   truthy (refreshToken (sampleSession (JStr ''old-refresh'') 60000)) \<and>
   authenticate envUp 0 5 (dashboardRequest ''required'')
       (yarWith (sampleSession (JStr ''old-refresh'') 60000)) startedProcess
     = (Authenticated (Session (sampleSession (JStr ''old-refresh'') 60000)),
        yarWith (sampleSession (JStr ''old-refresh'') 60000), startedProcess) \<and>
   expiresAt (sampleSession (JStr ''old-refresh'') (- 8640000000000000)) \<le> 0 + 60000 \<and>
   authenticate envUp 0 5 (dashboardRequest ''required'')
       (yarWith (sampleSession (JStr ''old-refresh'') (- 8640000000000000))) startedProcess
     = (Authenticated (Session (sampleSession (JStr ''old-refresh'') (- 8640000000000000))),
        yarWith (sampleSession (JStr ''old-refresh'') (- 8640000000000000)), startedProcess) \<and>
   refreshCalls startedProcess = [] \<and>
   refreshAccessToken envFarFuture (JStr ''old-refresh'') startedProcess
     = (Inr (newTokens\<lparr>expires_in := Some 8640000000000\<rparr>), refreshedProcess) \<and>
   authenticate envFarFuture 1000 1005 (dashboardRequest ''required'')
       (yarWith (sampleSession (JStr ''old-refresh'') 0)) startedProcess
     = (Takeover ''/auth/login'',
        \<lparr>store = Map.empty, flashes = [''redirect'' \<mapsto> [''/dashboard'']]\<rparr>,
        refreshedProcess)"
proof -
  let ?b = "sampleSession (JStr ''old-refresh'') 60000"
  let ?l = "sampleSession (JStr ''old-refresh'') (- 8640000000000000)"
  let ?s = "sampleSession (JStr ''old-refresh'') 0"
  have storedb: "yar_get (yarWith ?b) ''auth'' = Some ?b"
    by (simp add: yar_get_def yarWith_def)
  have "\<not> (- maxTime + 60000 \<le> expiresAt ?b \<and> expiresAt ?b \<le> maxTime \<and>
      expiresAt ?b < 0 + 60000 \<and> truthy (refreshToken ?b))"
    by (simp add: sampleSession_def)
  with storedb have boundary: "authenticate envUp 0 5 (dashboardRequest ''required'')
      (yarWith ?b) startedProcess = (Authenticated (Session ?b), yarWith ?b, startedProcess)"
    by (rule authenticate_no_refresh)
  have storedl: "yar_get (yarWith ?l) ''auth'' = Some ?l"
    by (simp add: yar_get_def yarWith_def)
  have "\<not> (- maxTime + 60000 \<le> expiresAt ?l \<and> expiresAt ?l \<le> maxTime \<and>
      expiresAt ?l < 0 + 60000 \<and> truthy (refreshToken ?l))"
    by (simp add: sampleSession_def maxTime_def)
  with storedl have lowest: "authenticate envUp 0 5 (dashboardRequest ''required'')
      (yarWith ?l) startedProcess = (Authenticated (Session ?l), yarWith ?l, startedProcess)"
    by (rule authenticate_no_refresh)
  have stored: "yar_get (yarWith ?s) ''auth'' = Some ?s"
    by (simp add: yar_get_def yarWith_def)
  have lower: "- maxTime + 60000 \<le> expiresAt ?s"
    by (simp add: sampleSession_def maxTime_def)
  have upper: "expiresAt ?s \<le> maxTime"
    by (simp add: sampleSession_def maxTime_def)
  have expired: "expiresAt ?s < 1000 + 60000"
    by (simp add: sampleSession_def)
  have token: "truthy (refreshToken ?s)"
    by (simp add: sampleSession_def)
  have refreshed: "refreshAccessToken envFarFuture (refreshToken ?s) startedProcess
      = (Inr (newTokens\<lparr>expires_in := Some 8640000000000\<rparr>), refreshedProcess)"
    by (simp add: sampleSession_def refreshAccessToken_envFarFuture)
  have far: "authenticate envFarFuture 1000 1005 (dashboardRequest ''required'')
      (yarWith ?s) startedProcess
     = (Takeover ''/auth/login'',
        \<lparr>store = Map.empty, flashes = [''redirect'' \<mapsto> [''/dashboard'']]\<rparr>,
        refreshedProcess)"
  proof -
    have "toISOString (expiryTime 1005 (expires_in (newTokens\<lparr>expires_in := Some 8640000000000\<rparr>)))
        = Inl (RangeError ''Invalid time value'')"
      by (simp add: toISOString_def newDate_def expiryTime_def maxTime_def)
    with refreshed have "authenticate envFarFuture 1000 1005 (dashboardRequest ''required'')
        (yarWith ?s) startedProcess
        = (case refreshCatch (dashboardRequest ''required'') (yarWith ?s) of
             (out, y1) \<Rightarrow> (out, y1, refreshedProcess))"
      using authenticate_refresh [OF stored lower upper expired token, of envFarFuture 1005
          "dashboardRequest ''required''" startedProcess]
      by simp
    then show ?thesis
      by (simp add: refreshCatch_def dashboardRequest_def yar_clear_def yar_flash_def
          flashed_def yarWith_def)
  qed
  have b1: "expiresAt ?b \<le> 0 + 60000" by (simp add: sampleSession_def)
  have b2: "truthy (refreshToken ?b)" by (simp add: sampleSession_def)
  have l1: "expiresAt ?l \<le> 0 + 60000" by (simp add: sampleSession_def)
  have none: "refreshCalls startedProcess = []" by (simp add: startedProcess_def)
  from b1 b2 boundary l1 lowest none refreshAccessToken_envFarFuture far show ?thesis
    by (intro conjI)
qed

text \<open>
  C3. With an expired session (as the code tests it: \<open>expiresAt\<close> a date at least one
  minute above the lowest date and strictly before the clock plus one minute) and a truthy
  refresh token, when the call of the refresh client fails with whatever error, the
  strategy clears the record under \<open>auth\<close> and then gives the outcome and the session that
  the same request gets in the state without a session: in mode \<open>required\<close> the request
  path is added to the flash messages \<open>redirect\<close> and the outcome is the takeover redirect
  to \<open>/auth/login\<close>; in mode \<open>try\<close> or \<open>optional\<close> the request proceeds with empty
  credentials.
\<close>

theorem refresh_failure_is_no_session:
  assumes "yar_get y ''auth'' = Some s"
    and "- maxTime + 60000 \<le> expiresAt s"
    and "expiresAt s \<le> maxTime"
    and "expiresAt s < now + 60000"
    and "truthy (refreshToken s)"
    and "refreshAccessToken w (refreshToken s) p = (Inl err, p1)"
  shows "authenticate w now now2 req y p
           = authenticate w now now2 req (yar_clear y ''auth'') p1 \<and>
         yar_get (yar_clear y ''auth'') ''auth'' = None \<and>
         store (fst (snd (authenticate w now now2 req y p))) ''auth'' = None \<and>
         (authMode req = ''required'' \<longrightarrow>
            fst (authenticate w now now2 req y p) = Takeover ''/auth/login'' \<and>
            flashed (fst (snd (authenticate w now now2 req y p))) ''redirect''
              = flashed y ''redirect'' @ [path req]) \<and>
         (authMode req = ''try'' \<or> authMode req = ''optional'' \<longrightarrow>
            fst (authenticate w now now2 req y p) = Authenticated Anonymous \<and>
            flashes (fst (snd (authenticate w now now2 req y p))) = flashes y)"
proof -
  have cleared: "yar_get (yar_clear y ''auth'') ''auth'' = None"
    by (simp add: yar_get_def yar_clear_def)
  have run: "authenticate w now now2 req y p
      = (case refreshCatch req y of (out, y1) \<Rightarrow> (out, y1, p1))"
    using assms(6) by (simp add: authenticate_refresh [OF assms(1-5)])
  have same: "authenticate w now now2 req y p
      = authenticate w now now2 req (yar_clear y ''auth'') p1"
    by (simp add: run authenticate_no_session [OF cleared] refreshCatch_def Let_def)
  have gone: "store (fst (snd (authenticate w now now2 req y p))) ''auth'' = None"
    by (simp add: run refreshCatch_def Let_def yar_clear_def yar_flash_def)
  have required: "authMode req = ''required'' \<longrightarrow>
      fst (authenticate w now now2 req y p) = Takeover ''/auth/login'' \<and>
      flashed (fst (snd (authenticate w now now2 req y p))) ''redirect''
        = flashed y ''redirect'' @ [path req]"
    by (simp add: run refreshCatch_def Let_def yar_clear_def yar_flash_def flashed_def)
  have anonymous: "authMode req = ''try'' \<or> authMode req = ''optional'' \<longrightarrow>
      fst (authenticate w now now2 req y p) = Authenticated Anonymous \<and>
      flashes (fst (snd (authenticate w now now2 req y p))) = flashes y"
    by (auto simp: run refreshCatch_def Let_def yar_clear_def)
  from same cleared gone required anonymous show ?thesis
    by (intro conjI)
qed

theorem refresh_failure_is_no_session_witness:
  "yar_get (yarWith (sampleSession (JStr ''old-refresh'') 0)) ''auth''
     = Some (sampleSession (JStr ''old-refresh'') 0) \<and>
   - maxTime + 60000 \<le> expiresAt (sampleSession (JStr ''old-refresh'') 0) \<and>
   expiresAt (sampleSession (JStr ''old-refresh'') 0) \<le> maxTime \<and>
   expiresAt (sampleSession (JStr ''old-refresh'') 0) < 1000 + 60000 \<and>
   truthy (refreshToken (sampleSession (JStr ''old-refresh'') 0)) \<and>
   refreshAccessToken envRefused (JStr ''old-refresh'') startedProcess
     = (Inl (Error ''Token refresh failed: 404 Not Found - not found''), refreshedProcess) \<and>
   fst (authenticate envRefused 1000 1005 (dashboardRequest ''required'')
       (yarWith (sampleSession (JStr ''old-refresh'') 0)) startedProcess)
     = Takeover ''/auth/login'' \<and>
   store (fst (snd (authenticate envRefused 1000 1005 (dashboardRequest ''required'')
       (yarWith (sampleSession (JStr ''old-refresh'') 0)) startedProcess))) ''auth'' = None \<and>
   flashed (fst (snd (authenticate envRefused 1000 1005 (dashboardRequest ''required'')
       (yarWith (sampleSession (JStr ''old-refresh'') 0)) startedProcess))) ''redirect''
     = [''/dashboard'']"
proof -
  let ?s = "sampleSession (JStr ''old-refresh'') 0"
  have stored: "yar_get (yarWith ?s) ''auth'' = Some ?s"
    by (simp add: yar_get_def yarWith_def)
  have lower: "- maxTime + 60000 \<le> expiresAt ?s"
    by (simp add: sampleSession_def maxTime_def)
  have upper: "expiresAt ?s \<le> maxTime"
    by (simp add: sampleSession_def maxTime_def)
  have expired: "expiresAt ?s < 1000 + 60000"
    by (simp add: sampleSession_def)
  have token: "truthy (refreshToken ?s)"
    by (simp add: sampleSession_def)
  have failed: "refreshAccessToken envRefused (refreshToken ?s) startedProcess
      = (Inl (Error ''Token refresh failed: 404 Not Found - not found''), refreshedProcess)"
    by (simp add: sampleSession_def refreshAccessToken_envRefused)
  have pending: "flashed (yarWith ?s) ''redirect'' @ [path (dashboardRequest ''required'')]
      = [''/dashboard'']"
    by (simp add: flashed_def yarWith_def dashboardRequest_def)
  have mode: "authMode (dashboardRequest ''required'') = ''required''"
    by (simp add: dashboardRequest_def)
  note fact = refresh_failure_is_no_session [OF stored lower upper expired token failed, of 1005
      "dashboardRequest ''required''"]
  from fact have gone: "store (fst (snd (authenticate envRefused 1000 1005
      (dashboardRequest ''required'') (yarWith ?s) startedProcess))) ''auth'' = None"
    by blast
  from fact mode have out: "fst (authenticate envRefused 1000 1005
      (dashboardRequest ''required'') (yarWith ?s) startedProcess) = Takeover ''/auth/login''"
    by blast
  from fact mode have "flashed (fst (snd (authenticate envRefused 1000 1005
      (dashboardRequest ''required'') (yarWith ?s) startedProcess))) ''redirect''
      = flashed (yarWith ?s) ''redirect'' @ [path (dashboardRequest ''required'')]"
    by blast
  with pending have marker: "flashed (fst (snd (authenticate envRefused 1000 1005
      (dashboardRequest ''required'') (yarWith ?s) startedProcess))) ''redirect''
      = [''/dashboard'']"
    by simp
  from stored lower upper expired token refreshAccessToken_envRefused out gone marker
  show ?thesis
    by (intro conjI)
qed

section \<open>Facts about the controller\<close>

lemma bindE_Inr: "bindE m f = Inr v \<longleftrightarrow> (\<exists>a. m = Inr a \<and> f a = Inr v)"
  by (cases m) (simp_all add: bindE_def)


lemma buildSessionData_displayName:
  assumes "buildSessionData decode now creds = Inr s"
  shows "\<exists>claims g e. decode (token creds) = Inr claims \<and>
           getProp claims ''given_name'' = Inr g \<and> getProp claims ''email'' = Inr e \<and>
           displayName s = js_or g e"
  using assms unfolding buildSessionData_def bindE_Inr by auto


lemma callback_success:
  "buildSessionData decode now creds = Inr s \<Longrightarrow>
     callback decode now creds y =
       (Inr (Redirect (case flashed y ''redirect'' of [] \<Rightarrow> ''/'' | m # ms \<Rightarrow> m)),
        \<lparr>store = (store y)(''auth'' \<mapsto> s), flashes = (flashes y)(''redirect'' := None)\<rparr>)"
  by (simp add: callback_def yar_flash_read_def setSessionValue_def yar_set_def flashed_def)

lemma buildSessionData_sample:
  "buildSessionData (decodeTo (sampleClaims g)) 1000 sampleCredentials =
     Inr \<lparr>contactId = JStr ''test-contact-id'', email = JStr ''test@example.com'',
          displayName = js_or g (JStr ''test@example.com''),
          accessToken = JStr ''test-id-token'', refreshToken = JStr ''test-refresh-token'',
          expiresAt = 3601000, relationships = JArr [], roles = JArr [JStr ''user''],
          aal = JStr ''aal2'', loa = JStr ''2''\<rparr>"
  by (simp add: buildSessionData_def bindE_def decodeTo_def sampleClaims_def
      sampleCredentials_def toISOString_def newDate_def expiryTime_def maxTime_def js_or_def)

text \<open>
  C6, as the code has it. After a successful callback the record stored under \<open>auth\<close> has
  as display name the claim \<open>given_name\<close> when that claim is truthy, and the claim \<open>email\<close>
  otherwise: the fallback is taken exactly when the given name is falsy, which an absent,
  a null and an empty given name all are.
\<close>

theorem callback_display_name:
  assumes "callback decode now creds y = (Inr r, y')"
  shows "\<exists>claims g e s. decode (token creds) = Inr claims \<and>
           getProp claims ''given_name'' = Inr g \<and> getProp claims ''email'' = Inr e \<and>
           yar_get y' ''auth'' = Some s \<and>
           displayName s = (if truthy g then g else e)"
proof (cases "buildSessionData decode now creds")
  case (Inl err)
  with assms show ?thesis by (simp add: callback_def)
next
  case (Inr s)
  from buildSessionData_displayName [OF Inr]
  obtain claims g e where "decode (token creds) = Inr claims"
    "getProp claims ''given_name'' = Inr g" "getProp claims ''email'' = Inr e"
    "displayName s = js_or g e"
    by blast
  moreover from assms have "yar_get y' ''auth'' = Some s"
    by (auto simp: callback_success [OF Inr] yar_get_def)
  ultimately show ?thesis by (auto simp: js_or_def)
qed

theorem callback_display_name_witness:
  "callback (decodeTo (sampleClaims (JStr ''Test User''))) 1000 sampleCredentials emptyYar
     = (Inr (Redirect ''/''),
        yarWith \<lparr>contactId = JStr ''test-contact-id'', email = JStr ''test@example.com'',
          displayName = JStr ''Test User'',
          accessToken = JStr ''test-id-token'', refreshToken = JStr ''test-refresh-token'',
          expiresAt = 3601000, relationships = JArr [], roles = JArr [JStr ''user''],
          aal = JStr ''aal2'', loa = JStr ''2''\<rparr>) \<and>
   map_option displayName
     (yar_get (snd (callback (decodeTo (sampleClaims (JStr ''Test User''))) 1000
        sampleCredentials emptyYar)) ''auth'')
     = Some (JStr ''Test User'')"
proof -
  let ?s = "\<lparr>contactId = JStr ''test-contact-id'', email = JStr ''test@example.com'',
      displayName = JStr ''Test User'',
      accessToken = JStr ''test-id-token'', refreshToken = JStr ''test-refresh-token'',
      expiresAt = 3601000, relationships = JArr [], roles = JArr [JStr ''user''],
      aal = JStr ''aal2'', loa = JStr ''2''\<rparr>"
  let ?run = "callback (decodeTo (sampleClaims (JStr ''Test User''))) 1000 sampleCredentials
      emptyYar"
  have built: "buildSessionData (decodeTo (sampleClaims (JStr ''Test User''))) 1000
      sampleCredentials = Inr ?s"
    by (simp add: buildSessionData_sample js_or_def)
  have run: "?run = (Inr (Redirect ''/''), yarWith ?s)"
    by (simp add: callback_success [OF built] emptyYar_def yarWith_def flashed_def)
  then have shape: "?run = (Inr (Redirect ''/''), snd ?run)"
    by simp
  from callback_display_name [OF shape]
  obtain claims g e s where found: "decodeTo (sampleClaims (JStr ''Test User''))
      (token sampleCredentials) = Inr claims"
    "getProp claims ''given_name'' = Inr g" "getProp claims ''email'' = Inr e"
    "yar_get (snd ?run) ''auth'' = Some s" "displayName s = (if truthy g then g else e)"
    by blast
  from found(1) have "claims = sampleClaims (JStr ''Test User'')"
    by (simp add: decodeTo_def)
  with found(2) have "g = JStr ''Test User''"
    by (simp add: sampleClaims_def)
  with found(5) have "displayName s = JStr ''Test User''" by simp
  with found(4) have "map_option displayName (yar_get (snd ?run) ''auth'')
      = Some (JStr ''Test User'')"
    by simp
  with run show ?thesis by blast
qed

text \<open>
  Where C6 as stated fails. An ID token whose \<open>given_name\<close> claim is the empty string has
  that claim, so \<open>given_name ?? email\<close> is the empty string; the stored display name is the
  email.
\<close>

theorem callback_display_name_counterexample:
  "getProp (sampleClaims (JStr [])) ''given_name'' = Inr (JStr []) \<and>
   js_nullish (JStr []) (JStr ''test@example.com'') = JStr [] \<and>
   map_option displayName
     (yar_get (snd (callback (decodeTo (sampleClaims (JStr []))) 1000 sampleCredentials
        emptyYar)) ''auth'')
     = Some (JStr ''test@example.com'')"
proof -
  have "map_option displayName
     (yar_get (snd (callback (decodeTo (sampleClaims (JStr []))) 1000 sampleCredentials
        emptyYar)) ''auth'') = Some (JStr ''test@example.com'')"
    by (simp add: callback_success [OF buildSessionData_sample] yar_get_def js_or_def)
  then show ?thesis
    by (simp add: sampleClaims_def js_nullish_def)
qed




lemma hexDigit_unreserved: "d < 16 \<Longrightarrow> uriUnreserved (hexDigit d)"
proof -
  have "\<forall>d \<in> set [0..<16]. uriUnreserved (hexDigit d)"
    by code_simp
  then show "d < 16 \<Longrightarrow> uriUnreserved (hexDigit d)"
    by simp
qed

text \<open>An encoded component holds unreserved characters and percent signs only.\<close>

lemma percentEncode_well_formed:
  "c \<in> set (percentEncode b) \<Longrightarrow> uriUnreserved c \<or> c = CHR ''%''"
proof -
  have "(of_char b :: nat) div 16 < 16"
    by (rule less_mult_imp_div_less) simp
  moreover have "(of_char b :: nat) mod 16 < 16" by simp
  ultimately show "c \<in> set (percentEncode b) \<Longrightarrow> uriUnreserved c \<or> c = CHR ''%''"
    by (auto simp: percentEncode_def hexDigit_unreserved)
qed

lemma encodeURIComponent_well_formed:
  "c \<in> set (encodeURIComponent s) \<Longrightarrow> uriUnreserved c \<or> c = CHR ''%''"
  by (auto simp: encodeURIComponent_def dest: percentEncode_well_formed split: if_splits)

lemma portSegment_empty: "portSegment n = [] \<longleftrightarrow> n = 80 \<or> n = 443"
  by (simp add: portSegment_def)

lemma logout_session:
  "fst (snd (logout w y p)) = y\<lparr>store := (store y)(''auth'' := None)\<rparr>"
  by (simp add: logout_def Let_def clearSessionValue_def yar_clear_def
      split: prod.splits sum.splits)

lemma logout_resolved:
  "getOidcEndpoints w p = (Inr eps, p1) \<Longrightarrow>
     logout w y p =
       (Inr (Redirect (end_session_endpoint eps @ ''?post_logout_redirect_uri=''
          @ encodeURIComponent (postLogoutRedirectUri (cfg w)))),
        clearSessionValue y ''auth'', p1)"
  by (simp add: logout_def Let_def postLogoutRedirectUri_def portSegment_def)

lemma postLogoutRedirectUri_sample:
  "encodeURIComponent (postLogoutRedirectUri sampleConfig) = ''http%3A%2F%2Flocalhost%3A3000''"
  by code_simp

lemma postLogoutRedirectUri_production:
  "encodeURIComponent (postLogoutRedirectUri
     \<lparr>oidcDiscoveryUrl = [], clientId = [], clientSecret = [], isProduction = True,
      host = ''trade-demo.defra.gov.uk'', port = 443\<rparr>) = ''https%3A%2F%2Ftrade-demo.defra.gov.uk''"
  by code_simp

lemma refreshAccessToken_keeps_cache:
  "cachedOidcEndpoints p = Some e \<Longrightarrow>
     cachedOidcEndpoints (snd (refreshAccessToken w rt p)) = Some e"
  by (auto simp: refreshAccessToken_def getOidcEndpoints_def Let_def
      split: fetch_result.splits sum.splits)

lemma authenticate_process:
  "snd (snd (authenticate w now now2 req y p)) = p \<or>
   (\<exists>rt. snd (snd (authenticate w now now2 req y p)) = snd (refreshAccessToken w rt p))"
proof (cases "yar_get y ''auth''")
  case None
  then show ?thesis by (simp add: authenticate_no_session)
next
  case (Some s)
  show ?thesis
  proof (cases "- maxTime + 60000 \<le> expiresAt s \<and> expiresAt s \<le> maxTime \<and>
      expiresAt s < now + 60000 \<and> truthy (refreshToken s)")
    case False
    with Some show ?thesis by (simp add: authenticate_no_refresh)
  next
    case True
    then have "snd (snd (authenticate w now now2 req y p))
        = snd (refreshAccessToken w (refreshToken s) p)"
      by (simp add: authenticate_refresh [OF Some] split: prod.splits sum.splits)
    then show ?thesis by blast
  qed
qed

lemma authenticate_keeps_cache:
  assumes "cachedOidcEndpoints p = Some e"
  shows "cachedOidcEndpoints (snd (snd (authenticate w now now2 req y p))) = Some e"
  using authenticate_process [of w now now2 req y p] assms
  by (auto simp: refreshAccessToken_keeps_cache)

lemma logout_keeps_process:
  "cachedOidcEndpoints p = Some e \<Longrightarrow> snd (snd (logout w y p)) = p"
  by (simp add: logout_def Let_def getOidcEndpoints_cached)

lemma serve_keeps_cache:
  "cachedOidcEndpoints p = Some e \<Longrightarrow> cachedOidcEndpoints (serve history p) = Some e"
proof (induction history arbitrary: p)
  case Nil
  then show ?case by simp
next
  case (Cons h rest)
  show ?case
  proof (cases h)
    case (Authenticate w now now2 req y)
    with Cons show ?thesis by (simp add: authenticate_keeps_cache)
  next
    case (Logout w y)
    with Cons show ?thesis by (simp add: logout_keeps_process)
  qed
qed

lemma createServer_caches:
  assumes "createServer w p0 = (Inr srv, p1)" and "authRoutes srv"
  shows "\<exists>eps. cachedOidcEndpoints p1 = Some eps"
proof (cases "defraIdConfigured (cfg w)")
  case False
  with assms show ?thesis by (auto simp: createServer_def)
next
  case True
  with assms(1) obtain eps where "getOidcEndpoints w p0 = (Inr eps, p1)"
    by (auto simp: createServer_def setupDefraIdStrategy_def Let_def
        split: prod.splits sum.splits)
  then show ?thesis by (auto dest: getOidcEndpoints_success_caches)
qed

lemma createServer_started:
  "defraIdConfigured (cfg w) \<Longrightarrow> getOidcEndpoints w p = (Inr eps, p1) \<Longrightarrow>
     createServer w p = (Inr \<lparr>authRoutes = True\<rparr>, p1)"
  by (simp add: createServer_def setupDefraIdStrategy_def Let_def)

lemma createServer_envUp:
  "createServer envUp freshProcess = (Inr \<lparr>authRoutes = True\<rparr>, startedProcess)"
proof -
  have "defraIdConfigured (cfg envUp)"
    by (simp add: defraIdConfigured_def envUp_def sampleConfig_def)
  moreover have "getOidcEndpoints envUp freshProcess = (Inr sampleEndpoints, startedProcess)"
    by (simp add: getOidcEndpoints_envUp startedProcess_def)
  ultimately show ?thesis by (rule createServer_started)
qed

text \<open>
  C8. A server that has started with the routes under \<open>/auth\<close> registered holds the
  endpoint set of its start-up in the cache for good, whatever requests it has served
  since. Every logout it then handles, with or without a record under \<open>auth\<close>, leaves the
  session without that record and otherwise as it was (so on a session that has none it
  changes nothing), leaves the process state as it was, and replies with the redirect to
  the end-session endpoint followed by \<open>?post_logout_redirect_uri=\<close> and the
  percent-encoding of scheme, host and port segment, a segment that is empty exactly for
  the ports 80 and 443.
\<close>

theorem logout_clears_and_redirects:
  assumes "createServer w0 p0 = (Inr srv, p1)" and "authRoutes srv"
  shows "\<exists>eps. cachedOidcEndpoints p1 = Some eps \<and>
           logout w y (serve history p1) =
             (Inr (Redirect (end_session_endpoint eps @ ''?post_logout_redirect_uri=''
                @ encodeURIComponent (postLogoutRedirectUri (cfg w)))),
              y\<lparr>store := (store y)(''auth'' := None)\<rparr>, serve history p1) \<and>
           yar_get (fst (snd (logout w y (serve history p1)))) ''auth'' = None \<and>
           (yar_get y ''auth'' = None \<longrightarrow> fst (snd (logout w y (serve history p1))) = y) \<and>
           (portSegment (port (cfg w)) = [] \<longleftrightarrow> port (cfg w) = 80 \<or> port (cfg w) = 443)"
proof -
  from createServer_caches [OF assms] obtain eps where start: "cachedOidcEndpoints p1 = Some eps"
    by blast
  then have cached: "cachedOidcEndpoints (serve history p1) = Some eps"
    by (rule serve_keeps_cache)
  then have resolved: "getOidcEndpoints w (serve history p1) = (Inr eps, serve history p1)"
    by (rule getOidcEndpoints_cached)
  have reply: "logout w y (serve history p1) =
      (Inr (Redirect (end_session_endpoint eps @ ''?post_logout_redirect_uri=''
         @ encodeURIComponent (postLogoutRedirectUri (cfg w)))),
       y\<lparr>store := (store y)(''auth'' := None)\<rparr>, serve history p1)"
    by (simp add: logout_resolved [OF resolved] clearSessionValue_def yar_clear_def)
  have gone: "yar_get (fst (snd (logout w y (serve history p1)))) ''auth'' = None"
    by (simp add: logout_session yar_get_def)
  have idle: "yar_get y ''auth'' = None \<longrightarrow> fst (snd (logout w y (serve history p1))) = y"
  proof
    assume "yar_get y ''auth'' = None"
    then have "(store y)(''auth'' := None) = store y"
      by (simp add: yar_get_def fun_upd_idem)
    then show "fst (snd (logout w y (serve history p1))) = y"
      by (simp add: logout_session)
  qed
  note segment = portSegment_empty [of "port (cfg w)"]
  from start reply gone idle segment show ?thesis
    by (intro exI [of _ eps] conjI)
qed

theorem logout_clears_and_redirects_witness:
  "createServer envUp freshProcess = (Inr \<lparr>authRoutes = True\<rparr>, startedProcess) \<and>
   authRoutes \<lparr>authRoutes = True\<rparr> \<and>
   fst (logout envDown (yarWith (sampleSession JUndefined 0))
       (serve [Authenticate envRefused 1000 1005 (dashboardRequest ''required'')
                 (yarWith (sampleSession (JStr ''old-refresh'') 0)),
               Logout envDown emptyYar] startedProcess))
     = Inr (Redirect
         ''https://example.com/logout?post_logout_redirect_uri=http%3A%2F%2Flocalhost%3A3000'') \<and>
   yar_get (fst (snd (logout envDown (yarWith (sampleSession JUndefined 0))
       (serve [Authenticate envRefused 1000 1005 (dashboardRequest ''required'')
                 (yarWith (sampleSession (JStr ''old-refresh'') 0)),
               Logout envDown emptyYar] startedProcess)))) ''auth'' = None"
proof -
  let ?history = "[Authenticate envRefused 1000 1005 (dashboardRequest ''required'')
      (yarWith (sampleSession (JStr ''old-refresh'') 0)), Logout envDown emptyYar]"
  let ?run = "logout envDown (yarWith (sampleSession JUndefined 0))
      (serve ?history startedProcess)"
  have routed: "authRoutes \<lparr>authRoutes = True\<rparr>"
    by simp
  from logout_clears_and_redirects [OF createServer_envUp routed, of envDown
      "yarWith (sampleSession JUndefined 0)" ?history]
  obtain eps where cached: "cachedOidcEndpoints startedProcess = Some eps"
    and full: "?run = (Inr (Redirect (end_session_endpoint eps
        @ ''?post_logout_redirect_uri=''
        @ encodeURIComponent (postLogoutRedirectUri (cfg envDown)))),
        (yarWith (sampleSession JUndefined 0))
          \<lparr>store := (store (yarWith (sampleSession JUndefined 0)))(''auth'' := None)\<rparr>,
        serve ?history startedProcess)"
    and gone: "yar_get (fst (snd ?run)) ''auth'' = None"
    by (elim exE conjE)
  from full have reply: "fst ?run = Inr (Redirect (end_session_endpoint eps
      @ ''?post_logout_redirect_uri=''
      @ encodeURIComponent (postLogoutRedirectUri (cfg envDown))))"
    by (rule arg_cong [where f = fst, THEN trans]) simp
  from cached have "eps = sampleEndpoints"
    by (simp add: startedProcess_def)
  with reply have url: "fst ?run = Inr (Redirect
      ''https://example.com/logout?post_logout_redirect_uri=http%3A%2F%2Flocalhost%3A3000'')"
    by (simp add: envDown_def postLogoutRedirectUri_sample sampleEndpoints_def)
  from createServer_envUp routed url gone show ?thesis
    by (intro conjI)
qed

end
